theory Spec2Isabelle
  imports Main "HOL-Library.Word" "HOL-Library.Signed_Division"
begin

unbundle bit_operations_syntax

section \<open>The DA7280 hardware abstraction layer (da7280.c, da7280_hal.h, da7280.h)\<close>

text \<open>
  A shallow embedding of the C reference driver. C's \<open>u8\<close>, \<open>u16\<close> and \<open>u32\<close> are
  words. C's \<open>int\<close> status codes are integers (they stay between -95 and 255). An
  \<open>int\<close> argument or macro is a 32-bit word read as two's complement (\<open>sint\<close>), and
  the \<open>int\<close> arithmetic of \<open>da7280_set_imax\<close> is integer arithmetic with the 32-bit
  wrap-around \<open>c_int\<close> written out after every operation; C's truncating division is
  \<open>sdiv\<close>.
\<close>

type_synonym u8 = "8 word"
type_synonym u16 = "16 word"
type_synonym u32 = "32 word"
type_synonym s32 = "32 word"

subsection \<open>Constants of da7280_hal.h\<close>

definition EINVAL :: int where "EINVAL = 1"
definition EACCES :: int where "EACCES = 13"
definition EBUSY :: int where "EBUSY = 16"
definition EIO :: int where "EIO = 2"
definition EOPNOTSUPP :: int where "EOPNOTSUPP = 95"
definition SEQ_END :: u16 where "SEQ_END = 0xFFFF"
definition DA7280_DELAY :: u16 where "DA7280_DELAY = 0xFFFE"

definition DA7280_VOLT_RATE_MAX :: u32 where "DA7280_VOLT_RATE_MAX = 6000"
definition DA7280_VOLT_STEP_uV :: u32 where "DA7280_VOLT_STEP_uV = 23400"
definition DA7280_NOM_VOLT_DFT :: u32 where "DA7280_NOM_VOLT_DFT = 0x6B"
definition DA7280_IMAX_STEP :: int where "DA7280_IMAX_STEP = 7200"
definition DA7280_MIN_RESONAT_FREQ :: u16 where "DA7280_MIN_RESONAT_FREQ = 50"
definition DA7280_MAX_RESONAT_FREQ :: u16 where "DA7280_MAX_RESONAT_FREQ = 300"
definition DA7280_IMPD_MAX :: int where "DA7280_IMPD_MAX = 50000"
definition DA7280_IMPD_MIN :: int where "DA7280_IMPD_MIN = 4000"
definition DA7280_IMAX_LIMIT :: int where "DA7280_IMAX_LIMIT = 252"
definition DA7280_SNP_MEM_SIZE :: u8 where "DA7280_SNP_MEM_SIZE = 100"
definition IRQ_NUM :: nat where "IRQ_NUM = 3"

text \<open>\<open>enum da7280_haptic_dev_t\<close> and \<open>enum da7280_op_mode\<close>, stored in \<open>u8\<close> fields.\<close>

definition DA7280_LRA :: u8 where "DA7280_LRA = 0"
definition DA7280_ERM_BAR :: u8 where "DA7280_ERM_BAR = 1"
definition DA7280_ERM_COIN :: u8 where "DA7280_ERM_COIN = 2"
definition DA7280_INACTIVE_MODE :: u8 where "DA7280_INACTIVE_MODE = 0"
definition DA7280_DRO_MODE :: u8 where "DA7280_DRO_MODE = 1"
definition DA7280_PWM_MODE :: u8 where "DA7280_PWM_MODE = 2"
definition DA7280_RTWM_MODE :: u8 where "DA7280_RTWM_MODE = 3"
definition DA7280_ETWM_MODE :: u8 where "DA7280_ETWM_MODE = 4"
definition DA7280_SINGLE_PTN :: u8 where "DA7280_SINGLE_PTN = 0"
definition DA7280_BOTH_EDGE :: u8 where "DA7280_BOTH_EDGE = 2"

subsection \<open>Register addresses and field masks of da7280.h\<close>

definition DA7280_IRQ_EVENT1 :: u8 where "DA7280_IRQ_EVENT1 = 0x03"
definition DA7280_IRQ_STATUS1 :: u8 where "DA7280_IRQ_STATUS1 = 0x06"
definition DA7280_FRQ_LRA_PER_H :: u8 where "DA7280_FRQ_LRA_PER_H = 0x0A"
definition DA7280_FRQ_LRA_PER_L :: u8 where "DA7280_FRQ_LRA_PER_L = 0x0B"
definition DA7280_ACTUATOR1 :: u8 where "DA7280_ACTUATOR1 = 0x0C"
definition DA7280_ACTUATOR2 :: u8 where "DA7280_ACTUATOR2 = 0x0D"
definition DA7280_ACTUATOR3 :: u8 where "DA7280_ACTUATOR3 = 0x0E"
definition DA7280_CALIB_V2I_H :: u8 where "DA7280_CALIB_V2I_H = 0x0F"
definition DA7280_CALIB_V2I_L :: u8 where "DA7280_CALIB_V2I_L = 0x10"
definition DA7280_TOP_CFG1 :: u8 where "DA7280_TOP_CFG1 = 0x13"
definition DA7280_TOP_CFG4 :: u8 where "DA7280_TOP_CFG4 = 0x16"
definition DA7280_TOP_INT_CFG1 :: u8 where "DA7280_TOP_INT_CFG1 = 0x17"
definition DA7280_TOP_CTL1 :: u8 where "DA7280_TOP_CTL1 = 0x22"
definition DA7280_TOP_CTL2 :: u8 where "DA7280_TOP_CTL2 = 0x23"
definition DA7280_SEQ_CTL2 :: u8 where "DA7280_SEQ_CTL2 = 0x28"
definition DA7280_GPI_0_CTL :: u8 where "DA7280_GPI_0_CTL = 0x29"
definition DA7280_GPI_1_CTL :: u8 where "DA7280_GPI_1_CTL = 0x2A"
definition DA7280_GPI_2_CTL :: u8 where "DA7280_GPI_2_CTL = 0x2B"
definition DA7280_MEM_CTL1 :: u8 where "DA7280_MEM_CTL1 = 0x2C"
definition DA7280_MEM_CTL2 :: u8 where "DA7280_MEM_CTL2 = 0x2D"
definition DA7280_SNP_MEM_99 :: int where "DA7280_SNP_MEM_99 = 0xE7"
definition DA7280_SNP_MEM_MAX :: int where "DA7280_SNP_MEM_MAX = DA7280_SNP_MEM_99"

definition DA7280_E_PAT_FAULT_MASK :: u8 where "DA7280_E_PAT_FAULT_MASK = push_bit 4 1"
definition DA7280_STA_WARNING_MASK :: int where "DA7280_STA_WARNING_MASK = push_bit 5 1"
definition DA7280_IMAX_MASK :: int where "DA7280_IMAX_MASK = push_bit 0 31"
definition DA7280_AMP_PID_EN_SHIFT :: nat where "DA7280_AMP_PID_EN_SHIFT = 0"
definition DA7280_AMP_PID_EN_MASK :: u8 where "DA7280_AMP_PID_EN_MASK = push_bit 0 1"
definition DA7280_RAPID_STOP_EN_SHIFT :: nat where "DA7280_RAPID_STOP_EN_SHIFT = 1"
definition DA7280_RAPID_STOP_EN_MASK :: u8 where "DA7280_RAPID_STOP_EN_MASK = push_bit 1 1"
definition DA7280_ACCELERATION_EN_SHIFT :: nat where "DA7280_ACCELERATION_EN_SHIFT = 2"
definition DA7280_ACCELERATION_EN_MASK :: u8 where "DA7280_ACCELERATION_EN_MASK = push_bit 2 1"
definition DA7280_FREQ_TRACK_EN_SHIFT :: nat where "DA7280_FREQ_TRACK_EN_SHIFT = 3"
definition DA7280_FREQ_TRACK_EN_MASK :: u8 where "DA7280_FREQ_TRACK_EN_MASK = push_bit 3 1"
definition DA7280_BEMF_SENSE_EN_SHIFT :: nat where "DA7280_BEMF_SENSE_EN_SHIFT = 4"
definition DA7280_BEMF_SENSE_EN_MASK :: u8 where "DA7280_BEMF_SENSE_EN_MASK = push_bit 4 1"
definition DA7280_ACTUATOR_TYPE_SHIFT :: nat where "DA7280_ACTUATOR_TYPE_SHIFT = 5"
definition DA7280_ACTUATOR_TYPE_MASK :: u8 where "DA7280_ACTUATOR_TYPE_MASK = push_bit 5 1"
definition DA7280_TST_CALIB_IMPEDANCE_DIS_MASK :: u8 where
  "DA7280_TST_CALIB_IMPEDANCE_DIS_MASK = push_bit 6 1"
definition DA7280_V2I_FACTOR_FREEZE_MASK :: u8 where "DA7280_V2I_FACTOR_FREEZE_MASK = push_bit 7 1"
definition DA7280_BEMF_FAULT_LIM_MASK :: u8 where "DA7280_BEMF_FAULT_LIM_MASK = push_bit 0 3"
definition DA7280_OPERATION_MODE_MASK :: u8 where "DA7280_OPERATION_MODE_MASK = push_bit 0 7"
definition DA7280_STANDBY_EN_MASK :: u8 where "DA7280_STANDBY_EN_MASK = push_bit 3 1"
definition DA7280_PS_SEQ_ID_SHIFT :: nat where "DA7280_PS_SEQ_ID_SHIFT = 0"
definition DA7280_PS_SEQ_LOOP_SHIFT :: nat where "DA7280_PS_SEQ_LOOP_SHIFT = 4"
definition DA7280_GPI0_POLARITY_SHIFT :: nat where "DA7280_GPI0_POLARITY_SHIFT = 0"
definition DA7280_GPI0_MODE_SHIFT :: nat where "DA7280_GPI0_MODE_SHIFT = 2"
definition DA7280_GPI0_SEQUENCE_ID_SHIFT :: nat where "DA7280_GPI0_SEQUENCE_ID_SHIFT = 3"
definition DA7280_PATTERN_MEM_LOCK_MASK :: int where "DA7280_PATTERN_MEM_LOCK_MASK = push_bit 7 1"

subsection \<open>The bus, the driver's global state and the customer platform definitions\<close>

text \<open>
  \<open>i2c_register_read\<close> and \<open>i2c_register_write\<close> come from the platform header
  common-i2c-routines.h, which the repository does not contain: they are a parameter of
  every function below. A read returns its status, the byte stored through the
  \<open>&val\<close> pointer and the device's next state; a write returns its status and the next
  state. The device state \<open>'d\<close> is arbitrary, so registers may be volatile.
\<close>

record 'd i2c_routines =
  i2c_register_read :: "u8 \<Rightarrow> 'd \<Rightarrow> int \<times> u8 \<times> 'd"
  i2c_register_write :: "u8 \<Rightarrow> u8 \<Rightarrow> 'd \<Rightarrow> int \<times> 'd"

text \<open>Every call of a platform routine is recorded, whether it succeeds or not.\<close>

datatype bus_op = Rd u8 | Wr u8 u8

text \<open>\<open>struct da7280_haptic\<close>, the file-static \<open>haptic\<close>.\<close>

record da7280_haptic =
  suspend_state :: u8
  magnitude :: u32
  dev_type :: u8
  op_mode :: u8
  bemf_sense_en :: u8
  freq_track_en :: u8
  acc_en :: u8
  rapid_stop_en :: u8
  amp_pid_en :: u8

record 'd sys =
  dev :: 'd
  bus_log :: "bus_op list"
  haptic :: da7280_haptic

text \<open>
  The \<open>USER_*\<close> macros between "Customer Platform Definitions and Data start" and
  "End of Customer Platform Definitions": the configuration that
  \<open>da7280_set_user_data\<close> applies. \<open>user_data_shipped\<close> holds the values in the header.
\<close>

record user_data =
  USER_HAPTIC_DEV :: u8
  USER_OP_MODE :: u8
  USER_BEMF_SENS_EN :: u8
  USER_FREQ_TRACK_EN :: u8
  USER_ACC_EN :: u8
  USER_RAPID_STOP_EN :: u8
  USER_AMP_PID_EN :: u8
  USER_NOM_mVolt :: u32
  USER_ABS_MAX_mV :: u32
  USER_RESONANT_FREQ_Hz :: u16
  USER_IMAX_mA :: s32
  USER_IMPD_mOhm :: s32
  USER_OVERIDE_VAL :: u8
  USE_SEQ_ID :: u8
  USE_SEQ_LOOP :: u8
  USER_GPI_0_SEQ_ID :: u8
  USER_GPI_1_SEQ_ID :: u8
  USER_GPI_0_MOD :: u8
  USER_GPI_1_MOD :: u8
  USER_GPI_0_POL :: u8
  USER_GPI_1_POL :: u8

definition user_data_shipped :: user_data where
  "user_data_shipped =
     \<lparr>USER_HAPTIC_DEV = DA7280_LRA, USER_OP_MODE = DA7280_DRO_MODE, USER_BEMF_SENS_EN = 1,
      USER_FREQ_TRACK_EN = 1, USER_ACC_EN = 1, USER_RAPID_STOP_EN = 1, USER_AMP_PID_EN = 0,
      USER_NOM_mVolt = 1200, USER_ABS_MAX_mV = 1400, USER_RESONANT_FREQ_Hz = 180,
      USER_IMAX_mA = 137, USER_IMPD_mOhm = 10500, USER_OVERIDE_VAL = 0x59,
      USE_SEQ_ID = 7, USE_SEQ_LOOP = 3, USER_GPI_0_SEQ_ID = 7, USER_GPI_1_SEQ_ID = 7,
      USER_GPI_0_MOD = DA7280_SINGLE_PTN, USER_GPI_1_MOD = DA7280_SINGLE_PTN,
      USER_GPI_0_POL = DA7280_BOTH_EDGE, USER_GPI_1_POL = DA7280_BOTH_EDGE\<rparr>"

subsection \<open>I/O control interface functions\<close>

definition da7280_reg_read :: "'d i2c_routines \<Rightarrow> u8 \<Rightarrow> 'd sys \<Rightarrow> int \<times> 'd sys" where
  "da7280_reg_read T reg s =
     (case i2c_register_read T reg (dev s) of (ret, val, d) \<Rightarrow>
        let s' = s\<lparr>dev := d, bus_log := bus_log s @ [Rd reg]\<rparr> in
        if ret < 0 then (- EIO, s') else (uint val, s'))"

definition da7280_reg_write :: "'d i2c_routines \<Rightarrow> u8 \<Rightarrow> u8 \<Rightarrow> 'd sys \<Rightarrow> int \<times> 'd sys" where
  "da7280_reg_write T reg val s =
     (case i2c_register_write T reg val (dev s) of (ret, d) \<Rightarrow>
        let s' = s\<lparr>dev := d, bus_log := bus_log s @ [Wr reg val]\<rparr> in
        if ret \<noteq> 0 then (ret, s') else (0, s'))"




text \<open>
  \<open>u8 val = da7280_reg_read(reg); if (val < 0) return -EIO;\<close>: the status of the read
  is converted to \<open>u8\<close> before it is tested.
\<close>

definition da7280_update_bits ::
  "'d i2c_routines \<Rightarrow> u8 \<Rightarrow> u8 \<Rightarrow> u8 \<Rightarrow> 'd sys \<Rightarrow> int \<times> 'd sys" where
  "da7280_update_bits T reg msk bits s =
     (case da7280_reg_read T reg s of (r, s1) \<Rightarrow>
        let val = (word_of_int r :: u8) in
        if val < 0 then (- EIO, s1)
        else
          let val = (val AND NOT msk) OR bits in
          (case da7280_reg_write T reg val s1 of (w, s2) \<Rightarrow>
             if w < 0 then (- EIO, s2) else (0, s2)))"

text \<open>
  A script is a \<open>SEQ_END\<close>-terminated array of \<open>struct scr_type\<close>; \<open>msleep\<close> touches
  neither the bus nor the driver state. The array of the source always carries its
  terminator, so the empty-list equation is never reached by it.
\<close>

fun da7280_run_script :: "'d i2c_routines \<Rightarrow> (u16 \<times> u8) list \<Rightarrow> 'd sys \<Rightarrow> int \<times> 'd sys" where
  "da7280_run_script T [] s = (0, s)"
| "da7280_run_script T ((reg, val) # script) s =
     (if reg = SEQ_END then (0, s)
      else if reg = DA7280_DELAY then da7280_run_script T script s
      else (case da7280_reg_write T (ucast reg) val s of (ret, s1) \<Rightarrow>
              if ret \<noteq> 0 then (- EIO, s1) else da7280_run_script T script s1))"

text \<open>\<open>da7280_pdata_setup\<close>, with \<open>DA7280_USER_GPIO\<close> defined as in the header.\<close>

definition da7280_pdata_setup :: "user_data \<Rightarrow> (u16 \<times> u8) list" where
  "da7280_pdata_setup U =
     [(ucast DA7280_IRQ_EVENT1, 0xff),
      (ucast DA7280_TOP_CTL2, USER_OVERIDE_VAL U),
      (ucast DA7280_SEQ_CTL2,
         push_bit DA7280_PS_SEQ_LOOP_SHIFT (USE_SEQ_LOOP U) OR
         push_bit DA7280_PS_SEQ_ID_SHIFT (USE_SEQ_ID U)),
      (ucast DA7280_GPI_0_CTL,
         push_bit DA7280_GPI0_SEQUENCE_ID_SHIFT (USER_GPI_0_SEQ_ID U) OR
         push_bit DA7280_GPI0_MODE_SHIFT (USER_GPI_0_MOD U) OR
         push_bit DA7280_GPI0_POLARITY_SHIFT (USER_GPI_0_POL U)),
      (ucast DA7280_GPI_1_CTL,
         push_bit DA7280_GPI0_SEQUENCE_ID_SHIFT (USER_GPI_1_SEQ_ID U) OR
         push_bit DA7280_GPI0_MODE_SHIFT (USER_GPI_1_MOD U) OR
         push_bit DA7280_GPI0_POLARITY_SHIFT (USER_GPI_1_POL U)),
      (ucast DA7280_GPI_2_CTL,
         push_bit DA7280_GPI0_SEQUENCE_ID_SHIFT (USER_GPI_1_SEQ_ID U) OR
         push_bit DA7280_GPI0_MODE_SHIFT (USER_GPI_1_MOD U) OR
         push_bit DA7280_GPI0_POLARITY_SHIFT (USER_GPI_1_POL U)),
      (SEQ_END, 0)]"


subsection \<open>Waveform memory\<close>


subsection \<open>Drive level and actuator parameters\<close>


text \<open>
  \<open>get_val = 1000000000 / (val * 1333)\<close>: \<open>val\<close> is promoted to \<open>int\<close>, the quotient
  is stored in a \<open>u32\<close>.
\<close>

definition da7280_set_resonant_freq :: "'d i2c_routines \<Rightarrow> u16 \<Rightarrow> 'd sys \<Rightarrow> int \<times> 'd sys" where
  "da7280_set_resonant_freq T val s =
     (if val > DA7280_MAX_RESONAT_FREQ \<or> val < DA7280_MIN_RESONAT_FREQ then (- EINVAL, s)
      else
        let get_val = (word_of_int (1000000000 sdiv (uint val * 1333)) :: u32) in
        (case da7280_reg_write T DA7280_FRQ_LRA_PER_H (ucast (drop_bit 7 get_val AND 0xFF)) s of
           (ret, s1) \<Rightarrow>
             if ret \<noteq> 0 then (ret, s1)
             else
               (case da7280_reg_write T DA7280_FRQ_LRA_PER_L (ucast (get_val AND 0x7F)) s1 of
                  (ret, s2) \<Rightarrow> if ret \<noteq> 0 then (ret, s2) else (0, s2))))"

text \<open>
  The value of a 32-bit \<open>int\<close> after an arithmetic operation whose exact result is \<open>k\<close>:
  the two's complement wrap-around (signed overflow is undefined in C; compilers for
  the targets of this driver wrap).
\<close>

definition c_int :: "int \<Rightarrow> int" where
  "c_int k = (k + 2147483648) mod 4294967296 - 2147483648"

definition da7280_impd_check :: "s32 \<Rightarrow> int" where
  "da7280_impd_check impd =
     (if sint impd > DA7280_IMPD_MAX \<or> sint impd < DA7280_IMPD_MIN then - EINVAL else 0)"

definition da7280_set_imax :: "'d i2c_routines \<Rightarrow> user_data \<Rightarrow> s32 \<Rightarrow> 'd sys \<Rightarrow> int \<times> 'd sys" where
  "da7280_set_imax T U val s =
     (if sint val > DA7280_IMAX_LIMIT then (- EINVAL, s)
      else
        let imax = c_int (c_int (c_int (sint val * 1000) - 28600) sdiv DA7280_IMAX_STEP + 1);
            imax = (if imax > 0x1F then 0x1F else imax)
        in
        (case da7280_update_bits T DA7280_ACTUATOR3 (word_of_int DA7280_IMAX_MASK)
                (word_of_int (imax AND DA7280_IMAX_MASK)) s of
           (ret, s1) \<Rightarrow>
             if ret \<noteq> 0 then (ret, s1)
             else
               let ret = da7280_impd_check (USER_IMPD_mOhm U) in
               if ret \<noteq> 0 then (ret, s1)
               else
                 let v2i_factor =
                       (word_of_int
                          (c_int (c_int (sint (USER_IMPD_mOhm U) * 1000) * c_int (imax + 4))
                             sdiv 1610400) :: u32)
                 in
                 (case da7280_reg_write T DA7280_CALIB_V2I_L (ucast (v2i_factor AND 0xFF)) s1 of
                    (ret, s2) \<Rightarrow>
                      if ret \<noteq> 0 then (ret, s2)
                      else da7280_reg_write T DA7280_CALIB_V2I_H
                             (ucast (drop_bit 8 v2i_factor AND 0xFF)) s2)))"

definition da7280_set_volt_rating ::
  "'d i2c_routines \<Rightarrow> u8 \<Rightarrow> u32 \<Rightarrow> 'd sys \<Rightarrow> int \<times> 'd sys" where
  "da7280_set_volt_rating T reg val s =
     (let voltage = (if val < DA7280_VOLT_RATE_MAX
                     then val * 1000 div DA7280_VOLT_STEP_uV + 1
                     else DA7280_NOM_VOLT_DFT);
          voltage = (if voltage > 0xFF then 0xFF else voltage)
      in da7280_reg_write T reg (ucast (voltage AND 0xFF)) s)"

subsection \<open>Interrupt handling\<close>

text \<open>
  The first loop of \<open>da7280_irq_handler\<close>; \<open>u8 events[IRQ_NUM]\<close> is passed along and
  every slot is written before the handler looks at it.
\<close>

function irq_read_events ::
  "'d i2c_routines \<Rightarrow> nat \<Rightarrow> u8 list \<Rightarrow> 'd sys \<Rightarrow> int \<times> u8 list \<times> 'd sys" where
  "irq_read_events T i events s =
     (if i < 3 then
        (case da7280_reg_read T (DA7280_IRQ_EVENT1 + of_nat i) s of (val, s1) \<Rightarrow>
           if val < 0 then (val, events, s1)
           else irq_read_events T (i + 1) (events[i := word_of_int val]) s1)
      else (0, events, s))"
  by pat_completeness auto
termination
  by (relation "measure (\<lambda>(T, i, events, s). 3 - i)") auto

declare irq_read_events.simps [simp del]

definition da7280_irq_handler :: "'d i2c_routines \<Rightarrow> 'd sys \<Rightarrow> int \<times> 'd sys" where
  "da7280_irq_handler T s =
     (case irq_read_events T 0 (replicate IRQ_NUM 0) s of (ret, events, s1) \<Rightarrow>
        if ret < 0 then (ret, s1)
        else if (events ! 0 OR events ! 1 OR events ! 2) = 0x00 then (0, s1)
        else
          (case (if events ! 0 AND DA7280_E_PAT_FAULT_MASK \<noteq> 0
                 then da7280_update_bits T DA7280_TOP_CTL1 DA7280_OPERATION_MODE_MASK 0 s1
                 else (0, s1)) of
             (ret, s2) \<Rightarrow>
               if ret \<noteq> 0 then (ret, s2)
               else
                 (case da7280_reg_write T DA7280_IRQ_EVENT1 (events ! 0) s2 of
                    (ret, s3) \<Rightarrow> if ret \<noteq> 0 then (ret, s3) else (0, s3))))"

subsection \<open>Suspend and resume\<close>

definition da7280_suspend :: "'d i2c_routines \<Rightarrow> 'd sys \<Rightarrow> int \<times> 'd sys" where
  "da7280_suspend T s =
     (if suspend_state (haptic s) \<noteq> 0 then (0, s)
      else
        (case da7280_update_bits T DA7280_TOP_CTL1 DA7280_STANDBY_EN_MASK 0 s of
           (ret, s1) \<Rightarrow>
             if ret \<noteq> 0 then (ret, s1)
             else (0, s1\<lparr>haptic := (haptic s1)\<lparr>suspend_state := 1\<rparr>\<rparr>)))"

definition da7280_resume :: "'d i2c_routines \<Rightarrow> 'd sys \<Rightarrow> int \<times> 'd sys" where
  "da7280_resume T s =
     (if suspend_state (haptic s) = 0 then (0, s)
      else
        (case da7280_update_bits T DA7280_TOP_CTL1 DA7280_STANDBY_EN_MASK
                DA7280_STANDBY_EN_MASK s of
           (ret, s1) \<Rightarrow>
             if ret \<noteq> 0 then (ret, s1)
             else (0, s1\<lparr>haptic := (haptic s1)\<lparr>suspend_state := 0\<rparr>\<rparr>)))"

subsection \<open>Applying the platform data\<close>

text \<open>The assignments that open \<open>da7280_set_user_data\<close>.\<close>

definition load_user_data :: "user_data \<Rightarrow> da7280_haptic \<Rightarrow> da7280_haptic" where
  "load_user_data U h =
     h\<lparr>dev_type := USER_HAPTIC_DEV U, op_mode := USER_OP_MODE U,
       bemf_sense_en := USER_BEMF_SENS_EN U, freq_track_en := USER_FREQ_TRACK_EN U,
       acc_en := USER_ACC_EN U, rapid_stop_en := USER_RAPID_STOP_EN U,
       amp_pid_en := USER_AMP_PID_EN U\<rparr>"

text \<open>\<open>switch (haptic.dev_type)\<close>: a non-zero status leaves \<open>da7280_set_user_data\<close>.\<close>

definition set_user_data_dev_type ::
  "'d i2c_routines \<Rightarrow> user_data \<Rightarrow> 'd sys \<Rightarrow> int \<times> 'd sys" where
  "set_user_data_dev_type T U s =
     (if dev_type (haptic s) = DA7280_LRA then
        da7280_set_resonant_freq T (USER_RESONANT_FREQ_Hz U) s
      else if dev_type (haptic s) = DA7280_ERM_COIN then
        (case da7280_update_bits T DA7280_TOP_INT_CFG1 DA7280_BEMF_FAULT_LIM_MASK 0 s of
           (ret, s1) \<Rightarrow>
             if ret \<noteq> 0 then (ret, s1)
             else
               (case da7280_update_bits T DA7280_TOP_CFG4
                       (DA7280_TST_CALIB_IMPEDANCE_DIS_MASK OR DA7280_V2I_FACTOR_FREEZE_MASK)
                       (DA7280_TST_CALIB_IMPEDANCE_DIS_MASK OR DA7280_V2I_FACTOR_FREEZE_MASK)
                       s1 of
                  (ret, s2) \<Rightarrow>
                    if ret \<noteq> 0 then (ret, s2)
                    else (0, s2\<lparr>haptic := (haptic s2)\<lparr>acc_en := 0, rapid_stop_en := 0,
                                                        amp_pid_en := 0\<rparr>\<rparr>)))
      else (0, s))"

text \<open>The mask and value of the combined update of \<open>DA7280_TOP_CFG1\<close>.\<close>

definition top_cfg1_mask :: u8 where
  "top_cfg1_mask =
     DA7280_ACTUATOR_TYPE_MASK OR DA7280_BEMF_SENSE_EN_MASK OR DA7280_FREQ_TRACK_EN_MASK OR
     DA7280_ACCELERATION_EN_MASK OR DA7280_RAPID_STOP_EN_MASK OR DA7280_AMP_PID_EN_MASK"

definition top_cfg1_val :: "da7280_haptic \<Rightarrow> u8" where
  "top_cfg1_val h =
     push_bit DA7280_ACTUATOR_TYPE_SHIFT (if dev_type h \<noteq> 0 then 1 else 0) OR
     push_bit DA7280_BEMF_SENSE_EN_SHIFT (if bemf_sense_en h \<noteq> 0 then 1 else 0) OR
     push_bit DA7280_FREQ_TRACK_EN_SHIFT (if freq_track_en h \<noteq> 0 then 1 else 0) OR
     push_bit DA7280_ACCELERATION_EN_SHIFT (if acc_en h \<noteq> 0 then 1 else 0) OR
     push_bit DA7280_RAPID_STOP_EN_SHIFT (if rapid_stop_en h \<noteq> 0 then 1 else 0) OR
     push_bit DA7280_AMP_PID_EN_SHIFT (if amp_pid_en h \<noteq> 0 then 1 else 0)"

definition da7280_set_user_data :: "'d i2c_routines \<Rightarrow> user_data \<Rightarrow> 'd sys \<Rightarrow> int \<times> 'd sys" where
  "da7280_set_user_data T U s =
     (let s0 = s\<lparr>haptic := load_user_data U (haptic s)\<rparr> in
      case set_user_data_dev_type T U s0 of (ret, s1) \<Rightarrow>
        if ret \<noteq> 0 then (ret, s1)
        else
          let s2 = (if op_mode (haptic s1) \<ge> DA7280_RTWM_MODE
                    then s1\<lparr>haptic := (haptic s1)\<lparr>bemf_sense_en := 0\<rparr>\<rparr> else s1)
          in
          (case da7280_update_bits T DA7280_TOP_CFG1 top_cfg1_mask (top_cfg1_val (haptic s2)) s2 of
             (ret, s3) \<Rightarrow>
               if ret \<noteq> 0 then (ret, s3)
               else
                 (case da7280_set_imax T U (USER_IMAX_mA U) s3 of (ret, s4) \<Rightarrow>
                    if ret \<noteq> 0 then (ret, s4)
                    else
                      (case da7280_set_volt_rating T DA7280_ACTUATOR1 (USER_NOM_mVolt U) s4 of
                         (ret, s5) \<Rightarrow>
                           if ret \<noteq> 0 then (ret, s5)
                           else
                             (case da7280_set_volt_rating T DA7280_ACTUATOR2
                                     (USER_ABS_MAX_mV U) s5 of
                                (ret, s6) \<Rightarrow>
                                  if ret \<noteq> 0 then (ret, s6)
                                  else
                                    (case da7280_run_script T (da7280_pdata_setup U) s6 of
                                       (ret, s7) \<Rightarrow>
                                         if ret \<noteq> 0 then (- EINVAL, s7) else (0, s7)))))))"

subsection \<open>A register-file transport for running the driver on concrete inputs\<close>

text \<open>
  A device that stores what is written and returns it on a read; the bus operations whose
  index (counted from 0) is listed in \<open>sim_faults\<close> fail with status \<open>-5\<close> and leave
  the registers alone.
\<close>

record sim_dev =
  sim_regs :: "u8 \<Rightarrow> u8"
  sim_clock :: nat
  sim_faults :: "nat list"

definition sim_i2c :: "sim_dev i2c_routines" where
  "sim_i2c =
     \<lparr>i2c_register_read = (\<lambda>reg d.
        if sim_clock d \<in> set (sim_faults d) then (- 5, 0, d\<lparr>sim_clock := Suc (sim_clock d)\<rparr>)
        else (0, sim_regs d reg, d\<lparr>sim_clock := Suc (sim_clock d)\<rparr>)),
      i2c_register_write = (\<lambda>reg val d.
        if sim_clock d \<in> set (sim_faults d) then (- 5, d\<lparr>sim_clock := Suc (sim_clock d)\<rparr>)
        else (0, d\<lparr>sim_regs := (sim_regs d)(reg := val), sim_clock := Suc (sim_clock d)\<rparr>))\<rparr>"

definition haptic_init :: da7280_haptic where
  "haptic_init =
     \<lparr>suspend_state = 0, magnitude = 0, dev_type = 0, op_mode = 0, bemf_sense_en = 0,
      freq_track_en = 0, acc_en = 0, rapid_stop_en = 0, amp_pid_en = 0\<rparr>"

text \<open>
  The system at start-up: the registers listed hold the given bytes and every other
  register holds 0, nothing has been logged, and \<open>haptic\<close> is zero-initialised as a C
  static is.
\<close>

definition sim_sys :: "(u8 \<times> u8) list \<Rightarrow> nat list \<Rightarrow> sim_dev sys" where
  "sim_sys regs faults =
     \<lparr>dev = \<lparr>sim_regs = (\<lambda>reg. case map_of regs reg of None \<Rightarrow> 0 | Some v \<Rightarrow> v),
             sim_clock = 0, sim_faults = faults\<rparr>,
      bus_log = [], haptic = haptic_init\<rparr>"

text \<open>
  A transport whose operations always succeed: the device state is the register file.
\<close>

definition ideal_i2c :: "(u8 \<Rightarrow> u8) i2c_routines" where
  "ideal_i2c =
     \<lparr>i2c_register_read = (\<lambda>reg d. (0, d reg, d)),
      i2c_register_write = (\<lambda>reg val d. (0, d(reg := val)))\<rparr>"

definition ideal_sys :: "(u8 \<times> u8) list \<Rightarrow> (u8 \<Rightarrow> u8) sys" where
  "ideal_sys regs =
     \<lparr>dev = (\<lambda>reg. case map_of regs reg of None \<Rightarrow> 0 | Some v \<Rightarrow> v),
      bus_log = [], haptic = haptic_init\<rparr>"


subsection \<open>Predicates on traces\<close>

text \<open>
  \<open>not_top_cfg1\<close> holds of every bus operation except a write to \<open>DA7280_TOP_CFG1\<close>;
  \<open>issues Q s s'\<close> says that the log of \<open>s'\<close> is the log of \<open>s\<close> followed by
  operations that all satisfy \<open>Q\<close>.
\<close>

fun not_top_cfg1 :: "bus_op \<Rightarrow> bool" where
  "not_top_cfg1 (Rd a) = True"
| "not_top_cfg1 (Wr a w) = (a \<noteq> DA7280_TOP_CFG1)"

definition issues :: "(bus_op \<Rightarrow> bool) \<Rightarrow> 'd sys \<Rightarrow> 'd sys \<Rightarrow> bool" where
  "issues Q s s' \<longleftrightarrow> (\<exists>tr. bus_log s' = bus_log s @ tr \<and> list_all Q tr)"

section \<open>Properties\<close>

lemmas hal_consts =
  EINVAL_def EACCES_def EBUSY_def EIO_def EOPNOTSUPP_def SEQ_END_def DA7280_DELAY_def
  DA7280_VOLT_RATE_MAX_def DA7280_VOLT_STEP_uV_def DA7280_NOM_VOLT_DFT_def
  DA7280_IMAX_STEP_def DA7280_MIN_RESONAT_FREQ_def DA7280_MAX_RESONAT_FREQ_def
  DA7280_IMPD_MAX_def DA7280_IMPD_MIN_def DA7280_IMAX_LIMIT_def DA7280_SNP_MEM_SIZE_def
  IRQ_NUM_def DA7280_LRA_def DA7280_ERM_BAR_def DA7280_ERM_COIN_def
  DA7280_INACTIVE_MODE_def DA7280_DRO_MODE_def DA7280_PWM_MODE_def DA7280_RTWM_MODE_def
  DA7280_ETWM_MODE_def DA7280_SINGLE_PTN_def DA7280_BOTH_EDGE_def

lemmas reg_consts =
  DA7280_IRQ_EVENT1_def DA7280_IRQ_STATUS1_def DA7280_FRQ_LRA_PER_H_def
  DA7280_FRQ_LRA_PER_L_def DA7280_ACTUATOR1_def DA7280_ACTUATOR2_def DA7280_ACTUATOR3_def
  DA7280_CALIB_V2I_H_def DA7280_CALIB_V2I_L_def DA7280_TOP_CFG1_def DA7280_TOP_CFG4_def
  DA7280_TOP_INT_CFG1_def DA7280_TOP_CTL1_def DA7280_TOP_CTL2_def DA7280_SEQ_CTL2_def
  DA7280_GPI_0_CTL_def DA7280_GPI_1_CTL_def DA7280_GPI_2_CTL_def DA7280_MEM_CTL1_def
  DA7280_MEM_CTL2_def DA7280_SNP_MEM_99_def DA7280_SNP_MEM_MAX_def
  DA7280_E_PAT_FAULT_MASK_def DA7280_STA_WARNING_MASK_def DA7280_IMAX_MASK_def
  DA7280_AMP_PID_EN_SHIFT_def DA7280_AMP_PID_EN_MASK_def DA7280_RAPID_STOP_EN_SHIFT_def
  DA7280_RAPID_STOP_EN_MASK_def DA7280_ACCELERATION_EN_SHIFT_def
  DA7280_ACCELERATION_EN_MASK_def DA7280_FREQ_TRACK_EN_SHIFT_def
  DA7280_FREQ_TRACK_EN_MASK_def DA7280_BEMF_SENSE_EN_SHIFT_def DA7280_BEMF_SENSE_EN_MASK_def
  DA7280_ACTUATOR_TYPE_SHIFT_def DA7280_ACTUATOR_TYPE_MASK_def
  DA7280_TST_CALIB_IMPEDANCE_DIS_MASK_def DA7280_V2I_FACTOR_FREEZE_MASK_def
  DA7280_BEMF_FAULT_LIM_MASK_def DA7280_OPERATION_MODE_MASK_def DA7280_STANDBY_EN_MASK_def
  DA7280_PS_SEQ_ID_SHIFT_def DA7280_PS_SEQ_LOOP_SHIFT_def DA7280_GPI0_POLARITY_SHIFT_def
  DA7280_GPI0_MODE_SHIFT_def DA7280_GPI0_SEQUENCE_ID_SHIFT_def
  DA7280_PATTERN_MEM_LOCK_MASK_def


subsection \<open>Words: masks and truncation\<close>












subsection \<open>What one register access does\<close>


lemma reg_write_log:
  "bus_log (snd (da7280_reg_write T reg v s)) = bus_log s @ [Wr reg v]"
  by (simp add: da7280_reg_write_def Let_def split: prod.splits)


lemma reg_write_haptic:
  "haptic (snd (da7280_reg_write T reg v s)) = haptic s"
  by (simp add: da7280_reg_write_def Let_def split: prod.splits)

subsection \<open>The override value\<close>



subsection \<open>The voltage rating\<close>




subsection \<open>The resonant period\<close>





subsection \<open>Read-modify-write\<close>

lemma reg_read_effect:
  "\<exists>r d. da7280_reg_read T reg s = (r, s\<lparr>dev := d, bus_log := bus_log s @ [Rd reg]\<rparr>) \<and>
         (r = - EIO \<or> (0 \<le> r \<and> r \<le> 255))"
proof -
  obtain ret v d where rd: "i2c_register_read T reg (dev s) = (ret, v, d)"
    by (cases "i2c_register_read T reg (dev s)") auto
  have "uint v \<le> 255" using uint_lt2p [of v] by simp
  with rd show ?thesis
    by (auto simp add: da7280_reg_read_def Let_def)
qed

lemma reg_write_effect:
  "\<exists>w d. da7280_reg_write T reg v s = (w, s\<lparr>dev := d, bus_log := bus_log s @ [Wr reg v]\<rparr>)"
  by (cases "i2c_register_write T reg v (dev s)") (auto simp add: da7280_reg_write_def Let_def)

lemma update_bits_effect:
  "\<exists>x w d. da7280_update_bits T reg msk bits s =
     (w, s\<lparr>dev := d, bus_log := bus_log s @ [Rd reg, Wr reg ((x AND NOT msk) OR bits)]\<rparr>) \<and>
     (w = 0 \<or> w = - EIO)"
proof -
  obtain r d1 where rd: "da7280_reg_read T reg s = (r, s\<lparr>dev := d1, bus_log := bus_log s @ [Rd reg]\<rparr>)"
    using reg_read_effect [of T reg s] by blast
  let ?s1 = "s\<lparr>dev := d1, bus_log := bus_log s @ [Rd reg]\<rparr>"
  let ?v = "((word_of_int r :: u8) AND NOT msk) OR bits"
  obtain w d2 where wr: "da7280_reg_write T reg ?v ?s1 = (w, ?s1\<lparr>dev := d2, bus_log := bus_log ?s1 @ [Wr reg ?v]\<rparr>)"
    using reg_write_effect [of T reg ?v ?s1] by blast
  show ?thesis
    unfolding da7280_update_bits_def Let_def rd
    using wr by (auto simp add: )
qed


lemma update_bits_after_read:
  assumes "i2c_register_read T reg (dev s) = (r, old, d')" and "0 \<le> r"
      and "i2c_register_write T reg ((old AND NOT msk) OR bits) d' = (w, d'')"
  shows "da7280_update_bits T reg msk bits s =
           (if w < 0 then - EIO else 0,
            s\<lparr>dev := d'', bus_log := bus_log s @ [Rd reg, Wr reg ((old AND NOT msk) OR bits)]\<rparr>)"
  using assms
  by (simp add: da7280_update_bits_def da7280_reg_read_def da7280_reg_write_def Let_def)




text \<open>
  The status of the read is stored in a \<open>u8\<close> before \<open>val < 0\<close> is tested, so a failed
  read is not noticed: \<open>-EIO\<close> becomes the byte \<open>0xFE\<close>, which is modified and written.
\<close>

lemma update_bits_ignores_failed_read:
  "fst (da7280_update_bits sim_i2c DA7280_TOP_CTL1 0x08 0 (sim_sys [] [0])) = 0 \<and>
   bus_log (snd (da7280_update_bits sim_i2c DA7280_TOP_CTL1 0x08 0 (sim_sys [] [0]))) =
     [Rd DA7280_TOP_CTL1, Wr DA7280_TOP_CTL1 0xF6]"
  by (simp add: da7280_update_bits_def da7280_reg_read_def da7280_reg_write_def Let_def
        sim_i2c_def sim_sys_def hal_consts)

text \<open>
  What \<open>da7280_update_bits\<close> does for every outcome of its two bus operations: after a
  failed read it goes on with the byte \<open>0xFE\<close>, the status \<open>-EIO\<close> truncated to a \<open>u8\<close>.
\<close>

lemma update_bits_exact:
  assumes "i2c_register_read T reg (dev s) = (r, old, d')"
      and "i2c_register_write T reg (((if r < 0 then 0xFE else old) AND NOT msk) OR bits) d' =
             (w, d'')"
  shows "da7280_update_bits T reg msk bits s =
           (if w < 0 then - EIO else 0,
            s\<lparr>dev := d'', bus_log := bus_log s @
               [Rd reg, Wr reg (((if r < 0 then 0xFE else old) AND NOT msk) OR bits)]\<rparr>)"
proof -
  define x where "x = (if r < 0 then 0xFE else old)"
  define s1 where "s1 = s\<lparr>dev := d', bus_log := bus_log s @ [Rd reg]\<rparr>"
  have rd: "da7280_reg_read T reg s = (if r < 0 then - EIO else uint old, s1)"
    using assms(1) by (simp add: da7280_reg_read_def Let_def s1_def)
  have x: "(word_of_int (if r < 0 then - EIO else uint old) :: u8) = x"
    by (simp add: x_def EIO_def)
  have wr: "da7280_reg_write T reg ((x AND NOT msk) OR bits) s1 =
      (w, s1\<lparr>dev := d'', bus_log := bus_log s1 @ [Wr reg ((x AND NOT msk) OR bits)]\<rparr>)"
    using assms(2) by (simp add: da7280_reg_write_def Let_def s1_def x_def)
  show ?thesis
    unfolding da7280_update_bits_def rd Let_def prod.case x wr x_def [symmetric]
    by (simp add: s1_def)
qed

subsection \<open>Suspend and resume\<close>

text \<open>
  A suspend on a driver that records the suspended state, and a resume on one that
  records the resumed state, return 0 and change nothing. Otherwise, when the read of
  \<open>DA7280_TOP_CTL1\<close> succeeds with the byte \<open>old\<close>, the call issues that read and one
  write of \<open>old\<close> with only the \<open>STANDBY_EN\<close> bit changed, and records the new state
  unless the write reports a negative status.
\<close>

lemma suspend_resume_when_read_succeeds:
  "(suspend_state (haptic s) \<noteq> 0 \<longrightarrow> da7280_suspend T s = (0, s)) \<and>
   (suspend_state (haptic s) = 0 \<longrightarrow> da7280_resume T s = (0, s)) \<and>
   (suspend_state (haptic s) = 0 \<and>
    i2c_register_read T DA7280_TOP_CTL1 (dev s) = (r, old, d') \<and> 0 \<le> r \<and>
    i2c_register_write T DA7280_TOP_CTL1 (old AND NOT DA7280_STANDBY_EN_MASK) d' = (w, d'') \<longrightarrow>
      da7280_suspend T s =
        (if w < 0
         then (- EIO, s\<lparr>dev := d'', bus_log := bus_log s @
                 [Rd DA7280_TOP_CTL1, Wr DA7280_TOP_CTL1 (old AND NOT DA7280_STANDBY_EN_MASK)]\<rparr>)
         else (0, s\<lparr>dev := d'', bus_log := bus_log s @
                 [Rd DA7280_TOP_CTL1, Wr DA7280_TOP_CTL1 (old AND NOT DA7280_STANDBY_EN_MASK)],
                 haptic := (haptic s)\<lparr>suspend_state := 1\<rparr>\<rparr>))) \<and>
   (suspend_state (haptic s) \<noteq> 0 \<and>
    i2c_register_read T DA7280_TOP_CTL1 (dev s) = (r, old, d') \<and> 0 \<le> r \<and>
    i2c_register_write T DA7280_TOP_CTL1 (old OR DA7280_STANDBY_EN_MASK) d' = (w, d'') \<longrightarrow>
      da7280_resume T s =
        (if w < 0
         then (- EIO, s\<lparr>dev := d'', bus_log := bus_log s @
                 [Rd DA7280_TOP_CTL1, Wr DA7280_TOP_CTL1 (old OR DA7280_STANDBY_EN_MASK)]\<rparr>)
         else (0, s\<lparr>dev := d'', bus_log := bus_log s @
                 [Rd DA7280_TOP_CTL1, Wr DA7280_TOP_CTL1 (old OR DA7280_STANDBY_EN_MASK)],
                 haptic := (haptic s)\<lparr>suspend_state := 0\<rparr>\<rparr>)))"
proof -
  have set_bit: "(old AND NOT DA7280_STANDBY_EN_MASK) OR DA7280_STANDBY_EN_MASK =
                 old OR DA7280_STANDBY_EN_MASK"
    by (rule bit_word_eqI) (auto simp add: bit_simps)
  have 1: "suspend_state (haptic s) \<noteq> 0 \<longrightarrow> da7280_suspend T s = (0, s)"
    by (simp add: da7280_suspend_def)
  have 2: "suspend_state (haptic s) = 0 \<longrightarrow> da7280_resume T s = (0, s)"
    by (simp add: da7280_resume_def)
  have 3: "da7280_suspend T s =
        (if w < 0
         then (- EIO, s\<lparr>dev := d'', bus_log := bus_log s @
                 [Rd DA7280_TOP_CTL1, Wr DA7280_TOP_CTL1 (old AND NOT DA7280_STANDBY_EN_MASK)]\<rparr>)
         else (0, s\<lparr>dev := d'', bus_log := bus_log s @
                 [Rd DA7280_TOP_CTL1, Wr DA7280_TOP_CTL1 (old AND NOT DA7280_STANDBY_EN_MASK)],
                 haptic := (haptic s)\<lparr>suspend_state := 1\<rparr>\<rparr>))"
    if "suspend_state (haptic s) = 0"
      and "i2c_register_read T DA7280_TOP_CTL1 (dev s) = (r, old, d')" and "0 \<le> r"
      and "i2c_register_write T DA7280_TOP_CTL1 (old AND NOT DA7280_STANDBY_EN_MASK) d' = (w, d'')"
    using that update_bits_after_read [of T DA7280_TOP_CTL1 s r old d' DA7280_STANDBY_EN_MASK 0 w d'']
    by (simp add: da7280_suspend_def EIO_def)
  have 4: "da7280_resume T s =
        (if w < 0
         then (- EIO, s\<lparr>dev := d'', bus_log := bus_log s @
                 [Rd DA7280_TOP_CTL1, Wr DA7280_TOP_CTL1 (old OR DA7280_STANDBY_EN_MASK)]\<rparr>)
         else (0, s\<lparr>dev := d'', bus_log := bus_log s @
                 [Rd DA7280_TOP_CTL1, Wr DA7280_TOP_CTL1 (old OR DA7280_STANDBY_EN_MASK)],
                 haptic := (haptic s)\<lparr>suspend_state := 0\<rparr>\<rparr>))"
    if "suspend_state (haptic s) \<noteq> 0"
      and "i2c_register_read T DA7280_TOP_CTL1 (dev s) = (r, old, d')" and "0 \<le> r"
      and "i2c_register_write T DA7280_TOP_CTL1 (old OR DA7280_STANDBY_EN_MASK) d' = (w, d'')"
    using that update_bits_after_read [of T DA7280_TOP_CTL1 s r old d' DA7280_STANDBY_EN_MASK
        DA7280_STANDBY_EN_MASK w d'']
    by (simp add: da7280_resume_def EIO_def set_bit)
  from 1 2 3 4 show ?thesis by blast
qed

lemma suspend_twice_run:
  "fst (da7280_suspend sim_i2c (sim_sys [(DA7280_TOP_CTL1, 0x0B)] [])) = 0 \<and>
   bus_log (snd (da7280_suspend sim_i2c (sim_sys [(DA7280_TOP_CTL1, 0x0B)] []))) =
     [Rd DA7280_TOP_CTL1, Wr DA7280_TOP_CTL1 0x03] \<and>
   suspend_state (haptic (snd (da7280_suspend sim_i2c (sim_sys [(DA7280_TOP_CTL1, 0x0B)] [])))) = 1 \<and>
   da7280_resume sim_i2c (sim_sys [(DA7280_TOP_CTL1, 0x0B)] []) =
     (0, sim_sys [(DA7280_TOP_CTL1, 0x0B)] []) \<and>
   da7280_suspend sim_i2c (snd (da7280_suspend sim_i2c (sim_sys [(DA7280_TOP_CTL1, 0x0B)] []))) =
     (0, snd (da7280_suspend sim_i2c (sim_sys [(DA7280_TOP_CTL1, 0x0B)] [])))"
proof -
  let ?s = "sim_sys [(DA7280_TOP_CTL1, 0x0B)] []"
  have first: "da7280_suspend sim_i2c ?s =
      (0, ?s\<lparr>dev := (dev ?s)\<lparr>sim_regs := (sim_regs (dev ?s))(DA7280_TOP_CTL1 := 0x03),
                              sim_clock := 2\<rparr>,
              bus_log := [Rd DA7280_TOP_CTL1, Wr DA7280_TOP_CTL1 0x03],
              haptic := (haptic ?s)\<lparr>suspend_state := 1\<rparr>\<rparr>) \<and>
     da7280_resume sim_i2c ?s = (0, ?s)"
    using suspend_resume_when_read_succeeds [where T = sim_i2c and s = ?s and r = 0 and old = "0x0B"
        and d' = "(dev ?s)\<lparr>sim_clock := 1\<rparr>" and w = 0
        and d'' = "(dev ?s)\<lparr>sim_regs := (sim_regs (dev ?s))(DA7280_TOP_CTL1 := 0x03),
                            sim_clock := 2\<rparr>"]
    by (simp add: sim_sys_def sim_i2c_def haptic_init_def reg_consts)
  then have susp: "suspend_state (haptic (snd (da7280_suspend sim_i2c ?s))) \<noteq> 0"
    by simp
  have second: "da7280_suspend sim_i2c (snd (da7280_suspend sim_i2c ?s)) =
      (0, snd (da7280_suspend sim_i2c ?s))"
    using suspend_resume_when_read_succeeds [where T = sim_i2c and s = "snd (da7280_suspend sim_i2c ?s)"] susp
    by blast
  from first second show ?thesis by (simp add: sim_sys_def)
qed

text \<open>
  Claim C7. The second half of the claim, that a call which changes the state writes only
  the \<open>STANDBY_EN\<close> bit of \<open>DA7280_TOP_CTL1\<close>, fails when the read of that register
  fails: \<open>da7280_update_bits\<close> does not notice the failure, so \<open>da7280_suspend\<close> writes
  \<open>0xFE & ~0x08 = 0xF6\<close> and \<open>da7280_resume\<close> writes \<open>0xFE\<close>, whatever the register
  held (\<open>0x0B\<close> here), and both return 0 and record the new state. The bus below fails
  its first operation, the read.
\<close>

theorem suspend_resume_failed_read:
  "fst (da7280_suspend sim_i2c (sim_sys [(DA7280_TOP_CTL1, 0x0B)] [0])) = 0 \<and>
   bus_log (snd (da7280_suspend sim_i2c (sim_sys [(DA7280_TOP_CTL1, 0x0B)] [0]))) =
     [Rd DA7280_TOP_CTL1, Wr DA7280_TOP_CTL1 0xF6] \<and>
   suspend_state (haptic (snd (da7280_suspend sim_i2c
     (sim_sys [(DA7280_TOP_CTL1, 0x0B)] [0])))) = 1 \<and>
   fst (da7280_resume sim_i2c
     ((sim_sys [(DA7280_TOP_CTL1, 0x0B)] [0])\<lparr>haptic := haptic_init\<lparr>suspend_state := 1\<rparr>\<rparr>)) = 0 \<and>
   bus_log (snd (da7280_resume sim_i2c
     ((sim_sys [(DA7280_TOP_CTL1, 0x0B)] [0])\<lparr>haptic := haptic_init\<lparr>suspend_state := 1\<rparr>\<rparr>))) =
     [Rd DA7280_TOP_CTL1, Wr DA7280_TOP_CTL1 0xFE] \<and>
   suspend_state (haptic (snd (da7280_resume sim_i2c
     ((sim_sys [(DA7280_TOP_CTL1, 0x0B)] [0])\<lparr>haptic := haptic_init\<lparr>suspend_state := 1\<rparr>\<rparr>)))) = 0"
  by (simp add: da7280_suspend_def da7280_resume_def da7280_update_bits_def
        da7280_reg_read_def da7280_reg_write_def Let_def sim_i2c_def sim_sys_def
        haptic_init_def hal_consts reg_consts)

subsection \<open>The interrupt handler\<close>

lemma irq_read_events_unroll:
  "irq_read_events T 0 ev s =
     (case da7280_reg_read T DA7280_IRQ_EVENT1 s of (v0, s1) \<Rightarrow>
        if v0 < 0 then (v0, ev, s1)
        else
          (case da7280_reg_read T (DA7280_IRQ_EVENT1 + 1) s1 of (v1, s2) \<Rightarrow>
             if v1 < 0 then (v1, ev[0 := word_of_int v0], s2)
             else
               (case da7280_reg_read T (DA7280_IRQ_EVENT1 + 2) s2 of (v2, s3) \<Rightarrow>
                  if v2 < 0 then (v2, ev[0 := word_of_int v0, 1 := word_of_int v1], s3)
                  else (0, ev[0 := word_of_int v0, 1 := word_of_int v1, 2 := word_of_int v2],
                        s3))))"
  by (simp add: irq_read_events.simps [of T 0] irq_read_events.simps [of T "Suc 0"]
        irq_read_events.simps [of T "Suc (Suc 0)"] irq_read_events.simps [of T "Suc (Suc (Suc 0))"]
        numeral_2_eq_2 numeral_3_eq_3 split: prod.splits)

text \<open>
  Claim C1. Let \<open>e0\<close> be the byte the handler reads from \<open>DA7280_IRQ_EVENT1\<close>, and
  name the outcome of every bus operation the handler can reach. What the handler
  returns and the exact sequence of its bus operations are then determined. When the
  two further event reads succeed and \<open>e0\<close> has the pattern-fault bit set, the handler
  reads \<open>DA7280_TOP_CTL1\<close> and writes to it a byte \<open>v\<close> whose operation-mode field is
  0; if that write fails it returns \<open>-EIO\<close> and no event-clear write is issued;
  otherwise the next and last operation is the write of \<open>e0\<close> to
  \<open>DA7280_IRQ_EVENT1\<close>, whose status is returned. Without the fault bit (and some event
  byte non-zero) the only write is that of \<open>e0\<close> to \<open>DA7280_IRQ_EVENT1\<close>. When the
  three bytes are zero the handler returns 0 after the three reads, with no write. A
  failed event read ends the invocation with \<open>-EIO\<close> and no write.
\<close>

theorem irq_handler_fault_order:
  assumes rd0: "i2c_register_read T DA7280_IRQ_EVENT1 (dev s) = (r0, e0, d0)"
      and rd1: "i2c_register_read T (DA7280_IRQ_EVENT1 + 1) d0 = (r1, e1, d1)"
      and rd2: "i2c_register_read T (DA7280_IRQ_EVENT1 + 2) d1 = (r2, e2, d2)"
      and rdc: "i2c_register_read T DA7280_TOP_CTL1 d2 = (rc, old, dc)"
      and v: "v = (if rc < 0 then 0xFE else old) AND NOT DA7280_OPERATION_MODE_MASK"
      and wrc: "i2c_register_write T DA7280_TOP_CTL1 v dc = (wc, dw)"
      and wre: "i2c_register_write T DA7280_IRQ_EVENT1 e0 dw = (we, de)"
      and wrn: "i2c_register_write T DA7280_IRQ_EVENT1 e0 d2 = (wn, dn)"
  shows "v AND DA7280_OPERATION_MODE_MASK = 0 \<and>
         da7280_irq_handler T s =
           (if r0 < 0 then
              (- EIO, s\<lparr>dev := d0, bus_log := bus_log s @ [Rd DA7280_IRQ_EVENT1]\<rparr>)
            else if r1 < 0 then
              (- EIO, s\<lparr>dev := d1, bus_log := bus_log s @
                 [Rd DA7280_IRQ_EVENT1, Rd (DA7280_IRQ_EVENT1 + 1)]\<rparr>)
            else if r2 < 0 then
              (- EIO, s\<lparr>dev := d2, bus_log := bus_log s @
                 [Rd DA7280_IRQ_EVENT1, Rd (DA7280_IRQ_EVENT1 + 1), Rd (DA7280_IRQ_EVENT1 + 2)]\<rparr>)
            else if e0 = 0 \<and> e1 = 0 \<and> e2 = 0 then
              (0, s\<lparr>dev := d2, bus_log := bus_log s @
                 [Rd DA7280_IRQ_EVENT1, Rd (DA7280_IRQ_EVENT1 + 1), Rd (DA7280_IRQ_EVENT1 + 2)]\<rparr>)
            else if e0 AND DA7280_E_PAT_FAULT_MASK \<noteq> 0 then
              (if wc < 0 then
                 (- EIO, s\<lparr>dev := dw, bus_log := bus_log s @
                    [Rd DA7280_IRQ_EVENT1, Rd (DA7280_IRQ_EVENT1 + 1), Rd (DA7280_IRQ_EVENT1 + 2),
                     Rd DA7280_TOP_CTL1, Wr DA7280_TOP_CTL1 v]\<rparr>)
               else
                 (we, s\<lparr>dev := de, bus_log := bus_log s @
                    [Rd DA7280_IRQ_EVENT1, Rd (DA7280_IRQ_EVENT1 + 1), Rd (DA7280_IRQ_EVENT1 + 2),
                     Rd DA7280_TOP_CTL1, Wr DA7280_TOP_CTL1 v, Wr DA7280_IRQ_EVENT1 e0]\<rparr>))
            else
              (wn, s\<lparr>dev := dn, bus_log := bus_log s @
                 [Rd DA7280_IRQ_EVENT1, Rd (DA7280_IRQ_EVENT1 + 1), Rd (DA7280_IRQ_EVENT1 + 2),
                  Wr DA7280_IRQ_EVENT1 e0]\<rparr>))"
proof -
  define sa where "sa = s\<lparr>dev := d0, bus_log := bus_log s @ [Rd DA7280_IRQ_EVENT1]\<rparr>"
  define sb where "sb = s\<lparr>dev := d1, bus_log := bus_log s @
      [Rd DA7280_IRQ_EVENT1, Rd (DA7280_IRQ_EVENT1 + 1)]\<rparr>"
  define sc where "sc = s\<lparr>dev := d2, bus_log := bus_log s @
      [Rd DA7280_IRQ_EVENT1, Rd (DA7280_IRQ_EVENT1 + 1), Rd (DA7280_IRQ_EVENT1 + 2)]\<rparr>"
  define sd where "sd = s\<lparr>dev := dw, bus_log := bus_log s @
      [Rd DA7280_IRQ_EVENT1, Rd (DA7280_IRQ_EVENT1 + 1), Rd (DA7280_IRQ_EVENT1 + 2),
       Rd DA7280_TOP_CTL1, Wr DA7280_TOP_CTL1 v]\<rparr>"
  have v0: "v AND DA7280_OPERATION_MODE_MASK = 0"
    unfolding v by (rule bit_word_eqI) (auto simp add: bit_simps)
  have R0: "da7280_reg_read T DA7280_IRQ_EVENT1 s = (if r0 < 0 then - EIO else uint e0, sa)"
    using rd0 by (simp add: da7280_reg_read_def Let_def sa_def)
  have R1: "da7280_reg_read T (DA7280_IRQ_EVENT1 + 1) sa = (if r1 < 0 then - EIO else uint e1, sb)"
    using rd1 by (simp add: da7280_reg_read_def Let_def sa_def sb_def)
  have R2: "da7280_reg_read T (DA7280_IRQ_EVENT1 + 2) sb = (if r2 < 0 then - EIO else uint e2, sc)"
    using rd2 by (simp add: da7280_reg_read_def Let_def sb_def sc_def)
  have U: "da7280_update_bits T DA7280_TOP_CTL1 DA7280_OPERATION_MODE_MASK 0 sc =
      (if wc < 0 then - EIO else 0, sd)"
    using update_bits_exact [of T DA7280_TOP_CTL1 sc rc old dc DA7280_OPERATION_MODE_MASK 0 wc dw]
      rdc wrc
    by (simp add: v sc_def sd_def)
  have WF: "da7280_reg_write T DA7280_IRQ_EVENT1 e0 sd =
      (we, sd\<lparr>dev := de, bus_log := bus_log sd @ [Wr DA7280_IRQ_EVENT1 e0]\<rparr>)"
    using wre by (simp add: da7280_reg_write_def Let_def sd_def)
  have WN: "da7280_reg_write T DA7280_IRQ_EVENT1 e0 sc =
      (wn, sc\<lparr>dev := dn, bus_log := bus_log sc @ [Wr DA7280_IRQ_EVENT1 e0]\<rparr>)"
    using wrn by (simp add: da7280_reg_write_def Let_def sc_def)
  have neg: "\<not> uint x < 0" for x :: u8 by simp
  have H: "da7280_irq_handler T s =
      (if r0 < 0 then (- EIO, sa)
       else if r1 < 0 then (- EIO, sb)
       else if r2 < 0 then (- EIO, sc)
       else if e0 = 0 \<and> e1 = 0 \<and> e2 = 0 then (0, sc)
       else if e0 AND DA7280_E_PAT_FAULT_MASK \<noteq> 0
         then (if wc < 0 then (- EIO, sd)
               else (we, sd\<lparr>dev := de, bus_log := bus_log sd @ [Wr DA7280_IRQ_EVENT1 e0]\<rparr>))
       else (wn, sc\<lparr>dev := dn, bus_log := bus_log sc @ [Wr DA7280_IRQ_EVENT1 e0]\<rparr>))"
    unfolding da7280_irq_handler_def irq_read_events_unroll R0 prod.case
    using R1 R2 U WF WN
    by (simp add: IRQ_NUM_def numeral_3_eq_3 EIO_def or_eq_0_iff)
  from v0 H show ?thesis
    by (simp add: sa_def sb_def sc_def sd_def)
qed

theorem irq_handler_fault_order_witness:
  "fst (da7280_irq_handler ideal_i2c
          (ideal_sys [(DA7280_IRQ_EVENT1, 0x10), (DA7280_TOP_CTL1, 0x0B)])) = 0 \<and>
   bus_log (snd (da7280_irq_handler ideal_i2c
          (ideal_sys [(DA7280_IRQ_EVENT1, 0x10), (DA7280_TOP_CTL1, 0x0B)]))) =
     [Rd DA7280_IRQ_EVENT1, Rd (DA7280_IRQ_EVENT1 + 1), Rd (DA7280_IRQ_EVENT1 + 2),
      Rd DA7280_TOP_CTL1, Wr DA7280_TOP_CTL1 0x08, Wr DA7280_IRQ_EVENT1 0x10] \<and>
   fst (da7280_irq_handler ideal_i2c (ideal_sys [])) = 0 \<and>
   bus_log (snd (da7280_irq_handler ideal_i2c (ideal_sys []))) =
     [Rd DA7280_IRQ_EVENT1, Rd (DA7280_IRQ_EVENT1 + 1), Rd (DA7280_IRQ_EVENT1 + 2)]"
proof -
  let ?f = "ideal_sys [(DA7280_IRQ_EVENT1, 0x10), (DA7280_TOP_CTL1, 0x0B)]"
  let ?z = "ideal_sys []"
  have fault: "fst (da7280_irq_handler ideal_i2c ?f) = 0 \<and>
      bus_log (snd (da7280_irq_handler ideal_i2c ?f)) =
        [Rd DA7280_IRQ_EVENT1, Rd (DA7280_IRQ_EVENT1 + 1), Rd (DA7280_IRQ_EVENT1 + 2),
         Rd DA7280_TOP_CTL1, Wr DA7280_TOP_CTL1 0x08, Wr DA7280_IRQ_EVENT1 0x10]"
    using irq_handler_fault_order [where T = ideal_i2c and s = ?f
        and ?r0.0 = 0 and ?e0.0 = "0x10" and ?d0.0 = "dev ?f"
        and ?r1.0 = 0 and ?e1.0 = 0 and ?d1.0 = "dev ?f"
        and ?r2.0 = 0 and ?e2.0 = 0 and ?d2.0 = "dev ?f"
        and rc = 0 and old = "0x0B" and dc = "dev ?f" and v = "0x08"
        and wc = 0 and dw = "(dev ?f)(DA7280_TOP_CTL1 := 0x08)"
        and we = 0 and de = "(dev ?f)(DA7280_TOP_CTL1 := 0x08, DA7280_IRQ_EVENT1 := 0x10)"
        and wn = 0 and dn = "(dev ?f)(DA7280_IRQ_EVENT1 := 0x10)"]
    by (simp add: ideal_i2c_def ideal_sys_def reg_consts)
  have quiet: "fst (da7280_irq_handler ideal_i2c ?z) = 0 \<and>
      bus_log (snd (da7280_irq_handler ideal_i2c ?z)) =
        [Rd DA7280_IRQ_EVENT1, Rd (DA7280_IRQ_EVENT1 + 1), Rd (DA7280_IRQ_EVENT1 + 2)]"
    using irq_handler_fault_order [where T = ideal_i2c and s = ?z
        and ?r0.0 = 0 and ?e0.0 = 0 and ?d0.0 = "dev ?z"
        and ?r1.0 = 0 and ?e1.0 = 0 and ?d1.0 = "dev ?z"
        and ?r2.0 = 0 and ?e2.0 = 0 and ?d2.0 = "dev ?z"
        and rc = 0 and old = 0 and dc = "dev ?z" and v = 0
        and wc = 0 and dw = "(dev ?z)(DA7280_TOP_CTL1 := 0)"
        and we = 0 and de = "(dev ?z)(DA7280_TOP_CTL1 := 0, DA7280_IRQ_EVENT1 := 0)"
        and wn = 0 and dn = "(dev ?z)(DA7280_IRQ_EVENT1 := 0)"]
    by (simp add: ideal_i2c_def ideal_sys_def reg_consts)
  from fault quiet show ?thesis by simp
qed

subsection \<open>Updating the waveform memory\<close>








subsection \<open>The current limit\<close>

lemma int_and_31: "(k :: int) AND 31 = k mod 32"
proof -
  have "(31 :: int) = mask 5" by (simp add: mask_eq_exp_minus_1)
  then have "k AND 31 = take_bit 5 k" by (simp only: take_bit_eq_mask)
  then show ?thesis by (simp add: take_bit_eq_mod)
qed






text \<open>The 32-bit arithmetic on literals, for running the driver on concrete inputs.\<close>

lemma c_int_numeral:
  "c_int (numeral n) = (numeral n + 2147483648) mod 4294967296 - 2147483648"
  "c_int (- numeral n) = (- numeral n + 2147483648) mod 4294967296 - 2147483648"
  "c_int 0 = 0" "c_int 1 = 1"
  by (simp_all add: c_int_def)

lemma sdiv_numeral:
  "(numeral a :: int) sdiv numeral b = numeral a div numeral b"
  "(- numeral a :: int) sdiv numeral b = - (numeral a div numeral b)"
  "(0 :: int) sdiv numeral b = 0"
  "(1 :: int) sdiv numeral b = 1 div numeral b"
  by (simp_all add: signed_divide_int_def)

lemmas c_arith = c_int_numeral sdiv_numeral



lemma set_imax_rejects:
  "sint val > 252 \<Longrightarrow> da7280_set_imax T U val s = (- EINVAL, s)"
  by (simp add: da7280_set_imax_def DA7280_IMAX_LIMIT_def)





text \<open>
  Where the arithmetic leaves 32 bits the wrap-around shows: at \<open>val = -1500\<close> the code
  is \<open>-211\<close> and the product \<open>10500 * 1000 * (-211 + 4)\<close> wraps to \<open>2121467296\<close>, so the
  factor written is \<open>0x0525\<close>.
\<close>

lemma set_imax_wraps:
  "bus_log (snd (da7280_set_imax sim_i2c user_data_shipped (- 1500) (sim_sys [] []))) =
     [Rd DA7280_ACTUATOR3, Wr DA7280_ACTUATOR3 13,
      Wr DA7280_CALIB_V2I_L 0x25, Wr DA7280_CALIB_V2I_H 0x05]"
  by (simp add: da7280_set_imax_def da7280_update_bits_def da7280_reg_read_def
        da7280_reg_write_def da7280_impd_check_def Let_def sim_i2c_def sim_sys_def
        user_data_shipped_def hal_consts reg_consts c_arith)

subsection \<open>Applying the platform data\<close>


lemma reg_write_logD:
  "da7280_reg_write T reg v s = (w, s1) \<Longrightarrow>
   bus_log s1 = bus_log s @ [Wr reg v] \<and> haptic s1 = haptic s"
  using reg_write_log [of T reg v s] reg_write_haptic [of T reg v s] by simp

lemma update_bits_logD:
  "da7280_update_bits T reg msk bits s = (w, s1) \<Longrightarrow>
   (\<exists>x. bus_log s1 = bus_log s @ [Rd reg, Wr reg ((x AND NOT msk) OR bits)]) \<and>
   haptic s1 = haptic s"
  using update_bits_effect [of T reg msk bits s] by auto

lemma set_resonant_freq_D:
  "da7280_set_resonant_freq T f s = (ret, s1) \<Longrightarrow>
   issues not_top_cfg1 s s1 \<and> haptic s1 = haptic s"
  by (auto simp add: da7280_set_resonant_freq_def Let_def issues_def reg_consts
        split: prod.splits if_splits dest!: reg_write_logD)

lemma dev_type_D:
  "set_user_data_dev_type T U s = (ret, s1) \<Longrightarrow>
   issues not_top_cfg1 s s1 \<and> op_mode (haptic s1) = op_mode (haptic s)"
  by (auto simp add: set_user_data_dev_type_def issues_def reg_consts
        split: prod.splits if_splits dest!: update_bits_logD set_resonant_freq_D)






lemma set_resonant_freq_rejects:
  "\<not> (50 \<le> unat f \<and> unat f \<le> 300) \<Longrightarrow> da7280_set_resonant_freq T f s = (- EINVAL, s)"
proof -
  assume "\<not> (50 \<le> unat f \<and> unat f \<le> 300)"
  then have "f > DA7280_MAX_RESONAT_FREQ \<or> f < DA7280_MIN_RESONAT_FREQ"
    by (auto simp add: word_less_nat_alt hal_consts)
  then show ?thesis unfolding da7280_set_resonant_freq_def by simp
qed

text \<open>
  \<open>da7280_set_user_data\<close> once the device-type step has returned 0 and the update of
  \<open>DA7280_TOP_CFG1\<close> has returned \<open>r3\<close>.
\<close>

lemma set_user_data_after_cfg1:
  assumes A: "set_user_data_dev_type T U (s\<lparr>haptic := load_user_data U (haptic s)\<rparr>) = (0, s1)"
      and s2: "s2 = (if DA7280_RTWM_MODE \<le> op_mode (haptic s1)
                     then s1\<lparr>haptic := (haptic s1)\<lparr>bemf_sense_en := 0\<rparr>\<rparr> else s1)"
      and B: "da7280_update_bits T DA7280_TOP_CFG1 top_cfg1_mask (top_cfg1_val (haptic s2)) s2 =
                (r3, s3)"
  shows "da7280_set_user_data T U s =
     (if r3 \<noteq> 0 then (r3, s3)
      else (case da7280_set_imax T U (USER_IMAX_mA U) s3 of (ret, s4) \<Rightarrow>
         if ret \<noteq> 0 then (ret, s4)
         else (case da7280_set_volt_rating T DA7280_ACTUATOR1 (USER_NOM_mVolt U) s4 of
            (ret, s5) \<Rightarrow>
              if ret \<noteq> 0 then (ret, s5)
              else (case da7280_set_volt_rating T DA7280_ACTUATOR2 (USER_ABS_MAX_mV U) s5 of
                 (ret, s6) \<Rightarrow>
                   if ret \<noteq> 0 then (ret, s6)
                   else (case da7280_run_script T (da7280_pdata_setup U) s6 of
                      (ret, s7) \<Rightarrow> if ret \<noteq> 0 then (- EINVAL, s7) else (0, s7))))))"
  using A B unfolding s2
  by (simp add: da7280_set_user_data_def Let_def)


text \<open>
  \<open>da7280_set_imax\<close> with a current that passes and an impedance that does not: the
  \<open>IMAX\<close> field has been written when the impedance is looked at.
\<close>

lemma set_imax_impd_rejects:
  assumes val: "sint val \<le> 252"
      and impd: "sint (USER_IMPD_mOhm U) > 50000 \<or> sint (USER_IMPD_mOhm U) < 4000"
      and rd: "i2c_register_read T DA7280_ACTUATOR3 (dev s) = (r, old, d')"
      and x: "x = ((if r < 0 then 0xFE else old) AND NOT 0x1F) OR
                  word_of_int
                    (min (c_int (c_int (c_int (sint val * 1000) - 28600) sdiv 7200 + 1)) 31 mod 32)"
      and wr: "i2c_register_write T DA7280_ACTUATOR3 x d' = (w, d'')"
  shows "da7280_set_imax T U val s =
           (if w < 0 then - EIO else - EINVAL,
            s\<lparr>dev := d'', bus_log := bus_log s @ [Rd DA7280_ACTUATOR3, Wr DA7280_ACTUATOR3 x]\<rparr>)"
proof -
  define imax where
    "imax = min (c_int (c_int (c_int (sint val * 1000) - 28600) sdiv 7200 + 1)) (31 :: int)"
  have clamp: "(if c_int (c_int (c_int (sint val * 1000) - 28600) sdiv 7200 + 1) > 0x1F then 0x1F
               else c_int (c_int (c_int (sint val * 1000) - 28600) sdiv 7200 + 1)) = imax"
    by (simp add: imax_def min_def)
  have m: "(word_of_int DA7280_IMAX_MASK :: u8) = 0x1F"
    by (simp add: DA7280_IMAX_MASK_def)
  have b: "imax AND DA7280_IMAX_MASK = imax mod 32"
    using int_and_31 [of imax] by (simp add: DA7280_IMAX_MASK_def)
  have x': "x = ((if r < 0 then 0xFE else old) AND NOT 0x1F) OR word_of_int (imax mod 32)"
    unfolding x imax_def ..
  have U: "da7280_update_bits T DA7280_ACTUATOR3 0x1F (word_of_int (imax mod 32)) s =
      (if w < 0 then - EIO else 0,
       s\<lparr>dev := d'', bus_log := bus_log s @ [Rd DA7280_ACTUATOR3, Wr DA7280_ACTUATOR3 x]\<rparr>)"
    using update_bits_exact [OF rd, of "0x1F" "word_of_int (imax mod 32)" w d''] wr
    unfolding x' by simp
  have c: "da7280_impd_check (USER_IMPD_mOhm U) = - EINVAL"
    using impd by (auto simp add: da7280_impd_check_def hal_consts)
  show ?thesis
    using val
    unfolding da7280_set_imax_def Let_def DA7280_IMAX_STEP_def clamp m b U c
    by (simp add: DA7280_IMAX_LIMIT_def EINVAL_def EIO_def)
qed



text \<open>
  The complete run of that configuration: every register write of the sequence, with
  \<open>0xCE\<close> in \<open>DA7280_TOP_CFG1\<close>, and status 0.
\<close>

lemma set_user_data_etwm_run:
  "fst (da7280_set_user_data ideal_i2c (user_data_shipped\<lparr>USER_OP_MODE := DA7280_ETWM_MODE\<rparr>)
          (ideal_sys [(DA7280_TOP_CFG1, 0xFF)])) = 0 \<and>
   bus_log (snd (da7280_set_user_data ideal_i2c
          (user_data_shipped\<lparr>USER_OP_MODE := DA7280_ETWM_MODE\<rparr>)
          (ideal_sys [(DA7280_TOP_CFG1, 0xFF)]))) =
     [Wr DA7280_FRQ_LRA_PER_H 0x20, Wr DA7280_FRQ_LRA_PER_L 0x47,
      Rd DA7280_TOP_CFG1, Wr DA7280_TOP_CFG1 0xCE,
      Rd DA7280_ACTUATOR3, Wr DA7280_ACTUATOR3 16,
      Wr DA7280_CALIB_V2I_L 130, Wr DA7280_CALIB_V2I_H 0,
      Wr DA7280_ACTUATOR1 52, Wr DA7280_ACTUATOR2 60,
      Wr DA7280_IRQ_EVENT1 0xFF, Wr DA7280_TOP_CTL2 0x59, Wr DA7280_SEQ_CTL2 0x37,
      Wr DA7280_GPI_0_CTL 0x3A, Wr DA7280_GPI_1_CTL 0x3A, Wr DA7280_GPI_2_CTL 0x3A]"
  by (simp add: da7280_set_user_data_def set_user_data_dev_type_def load_user_data_def
        da7280_set_resonant_freq_def da7280_set_imax_def da7280_impd_check_def
        da7280_set_volt_rating_def da7280_pdata_setup_def top_cfg1_mask_def top_cfg1_val_def
        da7280_update_bits_def da7280_reg_read_def da7280_reg_write_def Let_def
        ideal_i2c_def ideal_sys_def haptic_init_def user_data_shipped_def hal_consts reg_consts
        c_arith word_le_nat_alt)

text \<open>
  Claim C4, as amended. Of the three validation errors of the configure path only the
  frequency error precedes every bus operation: when the device is an LRA and the
  configured frequency lies outside \<open>[50, 300]\<close>, \<open>da7280_set_user_data\<close> returns
  \<open>-EINVAL\<close> with the bus and the device untouched. \<open>da7280_set_imax\<close> called on its
  own rejects a current above 252 before any bus operation, but inside
  \<open>da7280_set_user_data\<close> that check is reached only after the device-type step has
  returned 0 and the read-modify-write of \<open>DA7280_TOP_CFG1\<close> has been issued and has
  returned 0; the error is then returned in the state that follows these operations.
  The impedance is checked in \<open>da7280_set_imax\<close> only after the read-modify-write of
  the \<open>IMAX\<close> field of \<open>DA7280_ACTUATOR3\<close> has been issued: an impedance outside
  \<open>[4000, 50000]\<close> gives \<open>-EINVAL\<close> after that write (or \<open>-EIO\<close>, should the write
  fail), in \<open>da7280_set_imax\<close> and so in \<open>da7280_set_user_data\<close>.
\<close>

theorem set_user_data_validation_order:
  assumes dt: "set_user_data_dev_type T U (s\<lparr>haptic := load_user_data U (haptic s)\<rparr>) = (r1, s1)"
      and s2: "s2 = (if DA7280_RTWM_MODE \<le> op_mode (haptic s1)
                     then s1\<lparr>haptic := (haptic s1)\<lparr>bemf_sense_en := 0\<rparr>\<rparr> else s1)"
      and cfg: "da7280_update_bits T DA7280_TOP_CFG1 top_cfg1_mask (top_cfg1_val (haptic s2)) s2 =
                  (r3, s3)"
      and rd: "i2c_register_read T DA7280_ACTUATOR3 (dev s3) = (ra, olda, da)"
      and x: "x = ((if ra < 0 then 0xFE else olda) AND NOT 0x1F) OR
                  word_of_int
                    (min (c_int (c_int (c_int (sint (USER_IMAX_mA U) * 1000) - 28600) sdiv 7200 + 1))
                       31 mod 32)"
      and wr: "i2c_register_write T DA7280_ACTUATOR3 x da = (wa, da')"
  shows "(USER_HAPTIC_DEV U = DA7280_LRA \<and>
          \<not> (50 \<le> unat (USER_RESONANT_FREQ_Hz U) \<and> unat (USER_RESONANT_FREQ_Hz U) \<le> 300) \<longrightarrow>
            da7280_set_user_data T U s =
              (- EINVAL, s\<lparr>haptic := load_user_data U (haptic s)\<rparr>)) \<and>
         (sint val > 252 \<longrightarrow> da7280_set_imax T U val t = (- EINVAL, t)) \<and>
         (\<exists>tr. bus_log s1 = bus_log s @ tr) \<and>
         (\<exists>y. bus_log s3 = bus_log s1 @
                [Rd DA7280_TOP_CFG1,
                 Wr DA7280_TOP_CFG1 ((y AND NOT top_cfg1_mask) OR top_cfg1_val (haptic s2))]) \<and>
         (r1 = 0 \<and> r3 = 0 \<and> sint (USER_IMAX_mA U) > 252 \<longrightarrow>
            da7280_set_user_data T U s = (- EINVAL, s3)) \<and>
         (sint (USER_IMAX_mA U) \<le> 252 \<and>
          (sint (USER_IMPD_mOhm U) > 50000 \<or> sint (USER_IMPD_mOhm U) < 4000) \<longrightarrow>
            da7280_set_imax T U (USER_IMAX_mA U) s3 =
              (if wa < 0 then - EIO else - EINVAL,
               s3\<lparr>dev := da', bus_log := bus_log s3 @
                    [Rd DA7280_ACTUATOR3, Wr DA7280_ACTUATOR3 x]\<rparr>)) \<and>
         (r1 = 0 \<and> r3 = 0 \<and> sint (USER_IMAX_mA U) \<le> 252 \<and>
          (sint (USER_IMPD_mOhm U) > 50000 \<or> sint (USER_IMPD_mOhm U) < 4000) \<longrightarrow>
            da7280_set_user_data T U s =
              (if wa < 0 then - EIO else - EINVAL,
               s3\<lparr>dev := da', bus_log := bus_log s3 @
                    [Rd DA7280_ACTUATOR3, Wr DA7280_ACTUATOR3 x]\<rparr>))"
proof -
  let ?s0 = "s\<lparr>haptic := load_user_data U (haptic s)\<rparr>"
  let ?s4 = "s3\<lparr>dev := da', bus_log := bus_log s3 @
                    [Rd DA7280_ACTUATOR3, Wr DA7280_ACTUATOR3 x]\<rparr>"
  have P1: "da7280_set_user_data T U s = (- EINVAL, ?s0)"
    if "USER_HAPTIC_DEV U = DA7280_LRA"
      "\<not> (50 \<le> unat (USER_RESONANT_FREQ_Hz U) \<and> unat (USER_RESONANT_FREQ_Hz U) \<le> 300)"
  proof -
    have d0: "dev_type (load_user_data U (haptic s)) = USER_HAPTIC_DEV U"
      by (simp add: load_user_data_def)
    from that have "set_user_data_dev_type T U ?s0 = (- EINVAL, ?s0)"
      by (simp add: set_user_data_dev_type_def d0 set_resonant_freq_rejects)
    then show ?thesis
      by (simp add: da7280_set_user_data_def Let_def EINVAL_def)
  qed
  have P2: "da7280_set_imax T U val t = (- EINVAL, t)" if "sint val > 252"
    using that by (rule set_imax_rejects)
  have P3: "\<exists>tr. bus_log s1 = bus_log s @ tr"
    using dev_type_D [OF dt] by (auto simp add: issues_def)
  have l2: "bus_log s2 = bus_log s1" by (simp add: s2)
  have P4: "\<exists>y. bus_log s3 = bus_log s1 @
                [Rd DA7280_TOP_CFG1,
                 Wr DA7280_TOP_CFG1 ((y AND NOT top_cfg1_mask) OR top_cfg1_val (haptic s2))]"
    using update_bits_logD [OF cfg] unfolding l2 by blast
  have tail: "da7280_set_user_data T U s =
     (case da7280_set_imax T U (USER_IMAX_mA U) s3 of (ret, s4) \<Rightarrow>
         if ret \<noteq> 0 then (ret, s4)
         else (case da7280_set_volt_rating T DA7280_ACTUATOR1 (USER_NOM_mVolt U) s4 of
            (ret, s5) \<Rightarrow>
              if ret \<noteq> 0 then (ret, s5)
              else (case da7280_set_volt_rating T DA7280_ACTUATOR2 (USER_ABS_MAX_mV U) s5 of
                 (ret, s6) \<Rightarrow>
                   if ret \<noteq> 0 then (ret, s6)
                   else (case da7280_run_script T (da7280_pdata_setup U) s6 of
                      (ret, s7) \<Rightarrow> if ret \<noteq> 0 then (- EINVAL, s7) else (0, s7)))))"
    if "r1 = 0" "r3 = 0"
    using set_user_data_after_cfg1 [OF dt [unfolded that(1)] s2 cfg] that(2) by simp
  have P5: "da7280_set_user_data T U s = (- EINVAL, s3)"
    if "r1 = 0" "r3 = 0" "sint (USER_IMAX_mA U) > 252"
    unfolding tail [OF that(1,2)] set_imax_rejects [OF that(3)]
    by (simp add: EINVAL_def)
  have P6: "da7280_set_imax T U (USER_IMAX_mA U) s3 = (if wa < 0 then - EIO else - EINVAL, ?s4)"
    if "sint (USER_IMAX_mA U) \<le> 252"
      "sint (USER_IMPD_mOhm U) > 50000 \<or> sint (USER_IMPD_mOhm U) < 4000"
    using set_imax_impd_rejects [OF that rd x wr] .
  have P7: "da7280_set_user_data T U s = (if wa < 0 then - EIO else - EINVAL, ?s4)"
    if "r1 = 0" "r3 = 0" "sint (USER_IMAX_mA U) \<le> 252"
      "sint (USER_IMPD_mOhm U) > 50000 \<or> sint (USER_IMPD_mOhm U) < 4000"
    unfolding tail [OF that(1,2)] P6 [OF that(3,4)]
    by (simp add: EINVAL_def EIO_def)
  from P1 P2 P3 P4 P5 P6 P7 show ?thesis by blast
qed

theorem set_user_data_validation_order_witness:
  "da7280_set_user_data ideal_i2c (user_data_shipped\<lparr>USER_RESONANT_FREQ_Hz := 301\<rparr>)
      (ideal_sys []) =
     (- EINVAL, (ideal_sys [])\<lparr>haptic :=
         load_user_data (user_data_shipped\<lparr>USER_RESONANT_FREQ_Hz := 301\<rparr>)
           (haptic (ideal_sys []))\<rparr>) \<and>
   da7280_set_imax ideal_i2c (user_data_shipped\<lparr>USER_IMAX_mA := 300\<rparr>) 300 (ideal_sys []) =
     (- EINVAL, ideal_sys []) \<and>
   fst (da7280_set_user_data ideal_i2c (user_data_shipped\<lparr>USER_IMAX_mA := 300\<rparr>)
          (ideal_sys [])) = - EINVAL \<and>
   bus_log (snd (da7280_set_user_data ideal_i2c (user_data_shipped\<lparr>USER_IMAX_mA := 300\<rparr>)
          (ideal_sys []))) =
     [Wr DA7280_FRQ_LRA_PER_H 0x20, Wr DA7280_FRQ_LRA_PER_L 0x47,
      Rd DA7280_TOP_CFG1, Wr DA7280_TOP_CFG1 0x1E] \<and>
   fst (da7280_set_user_data ideal_i2c (user_data_shipped\<lparr>USER_IMPD_mOhm := 3000\<rparr>)
          (ideal_sys [])) = - EINVAL \<and>
   bus_log (snd (da7280_set_user_data ideal_i2c (user_data_shipped\<lparr>USER_IMPD_mOhm := 3000\<rparr>)
          (ideal_sys []))) =
     [Wr DA7280_FRQ_LRA_PER_H 0x20, Wr DA7280_FRQ_LRA_PER_L 0x47,
      Rd DA7280_TOP_CFG1, Wr DA7280_TOP_CFG1 0x1E,
      Rd DA7280_ACTUATOR3, Wr DA7280_ACTUATOR3 16]"
proof -
  let ?z = "ideal_sys []"
  let ?per = "[Wr DA7280_FRQ_LRA_PER_H 0x20, Wr DA7280_FRQ_LRA_PER_L 0x47]"
  let ?cfg = "[Rd DA7280_TOP_CFG1, Wr DA7280_TOP_CFG1 0x1E]"
  let ?d1 = "(dev ?z)(DA7280_FRQ_LRA_PER_H := 0x20, DA7280_FRQ_LRA_PER_L := 0x47)"
  let ?d3 = "?d1(DA7280_TOP_CFG1 := 0x1E)"
  have freq: "da7280_set_user_data ideal_i2c (user_data_shipped\<lparr>USER_RESONANT_FREQ_Hz := 301\<rparr>) ?z =
      (- EINVAL, ?z\<lparr>haptic :=
         load_user_data (user_data_shipped\<lparr>USER_RESONANT_FREQ_Hz := 301\<rparr>) (haptic ?z)\<rparr>)"
  proof -
    let ?U = "user_data_shipped\<lparr>USER_RESONANT_FREQ_Hz := 301\<rparr>"
    let ?s0 = "?z\<lparr>haptic := load_user_data ?U (haptic ?z)\<rparr>"
    let ?s3 = "?s0\<lparr>dev := (dev ?s0)(DA7280_TOP_CFG1 := 0x1E), bus_log := bus_log ?s0 @ ?cfg\<rparr>"
    have dt: "set_user_data_dev_type ideal_i2c ?U ?s0 = (- EINVAL, ?s0)"
      by (simp add: set_user_data_dev_type_def load_user_data_def da7280_set_resonant_freq_def
            user_data_shipped_def hal_consts word_less_nat_alt)
    have s2: "?s0 = (if DA7280_RTWM_MODE \<le> op_mode (haptic ?s0)
                     then ?s0\<lparr>haptic := (haptic ?s0)\<lparr>bemf_sense_en := 0\<rparr>\<rparr> else ?s0)"
      by (simp add: load_user_data_def user_data_shipped_def hal_consts word_le_nat_alt)
    have cfg: "da7280_update_bits ideal_i2c DA7280_TOP_CFG1 top_cfg1_mask
                 (top_cfg1_val (haptic ?s0)) ?s0 = (0, ?s3)"
      by (simp add: da7280_update_bits_def da7280_reg_read_def da7280_reg_write_def Let_def
            ideal_i2c_def ideal_sys_def top_cfg1_mask_def top_cfg1_val_def load_user_data_def
            haptic_init_def user_data_shipped_def hal_consts reg_consts)
    have rd: "i2c_register_read ideal_i2c DA7280_ACTUATOR3 (dev ?s3) = (0, 0, dev ?s3)"
      by (simp add: ideal_i2c_def ideal_sys_def reg_consts)
    have x: "(16 :: u8) = ((if (0 :: int) < 0 then 0xFE else 0) AND NOT 0x1F) OR
               word_of_int
                 (min (c_int (c_int (c_int (sint (USER_IMAX_mA ?U) * 1000) - 28600) sdiv 7200 + 1))
                    31 mod 32)"
      by (simp add: user_data_shipped_def c_arith)
    have wr: "i2c_register_write ideal_i2c DA7280_ACTUATOR3 16 (dev ?s3) =
        (0, (dev ?s3)(DA7280_ACTUATOR3 := 16))"
      by (simp add: ideal_i2c_def)
    from set_user_data_validation_order [OF dt s2 cfg rd x wr, of 300 ?z]
    show ?thesis
      by (simp add: user_data_shipped_def hal_consts)
  qed
  have imax: "da7280_set_imax ideal_i2c (user_data_shipped\<lparr>USER_IMAX_mA := 300\<rparr>) 300 ?z = (- EINVAL, ?z) \<and>
      fst (da7280_set_user_data ideal_i2c (user_data_shipped\<lparr>USER_IMAX_mA := 300\<rparr>) ?z) = - EINVAL \<and>
      bus_log (snd (da7280_set_user_data ideal_i2c (user_data_shipped\<lparr>USER_IMAX_mA := 300\<rparr>) ?z)) =
        ?per @ ?cfg"
  proof -
    let ?U = "user_data_shipped\<lparr>USER_IMAX_mA := 300\<rparr>"
    let ?s0 = "?z\<lparr>haptic := load_user_data ?U (haptic ?z)\<rparr>"
    let ?s1 = "?s0\<lparr>dev := ?d1, bus_log := ?per\<rparr>"
    let ?s3 = "?s1\<lparr>dev := ?d3, bus_log := ?per @ ?cfg\<rparr>"
    have dt: "set_user_data_dev_type ideal_i2c ?U ?s0 = (0, ?s1)"
      by (simp add: set_user_data_dev_type_def load_user_data_def da7280_set_resonant_freq_def
            da7280_reg_write_def Let_def ideal_i2c_def ideal_sys_def user_data_shipped_def
            hal_consts reg_consts word_less_nat_alt)
    have s2: "?s1 = (if DA7280_RTWM_MODE \<le> op_mode (haptic ?s1)
                     then ?s1\<lparr>haptic := (haptic ?s1)\<lparr>bemf_sense_en := 0\<rparr>\<rparr> else ?s1)"
      by (simp add: load_user_data_def user_data_shipped_def hal_consts word_le_nat_alt)
    have cfg: "da7280_update_bits ideal_i2c DA7280_TOP_CFG1 top_cfg1_mask
                 (top_cfg1_val (haptic ?s1)) ?s1 = (0, ?s3)"
      by (simp add: da7280_update_bits_def da7280_reg_read_def da7280_reg_write_def Let_def
            ideal_i2c_def ideal_sys_def top_cfg1_mask_def top_cfg1_val_def load_user_data_def
            haptic_init_def user_data_shipped_def hal_consts reg_consts)
    have rd: "i2c_register_read ideal_i2c DA7280_ACTUATOR3 (dev ?s3) = (0, 0, ?d3)"
      by (simp add: ideal_i2c_def ideal_sys_def reg_consts)
    have x: "(31 :: u8) = ((if (0 :: int) < 0 then 0xFE else 0) AND NOT 0x1F) OR
               word_of_int
                 (min (c_int (c_int (c_int (sint (USER_IMAX_mA ?U) * 1000) - 28600) sdiv 7200 + 1))
                    31 mod 32)"
      by (simp add: user_data_shipped_def c_arith)
    have wr: "i2c_register_write ideal_i2c DA7280_ACTUATOR3 31 ?d3 =
        (0, ?d3(DA7280_ACTUATOR3 := 31))"
      by (simp add: ideal_i2c_def)
    from set_user_data_validation_order [OF dt s2 cfg rd x wr, of 300 ?z]
    show ?thesis
      by (simp add: user_data_shipped_def hal_consts)
  qed
  have impd: "fst (da7280_set_user_data ideal_i2c (user_data_shipped\<lparr>USER_IMPD_mOhm := 3000\<rparr>) ?z) = - EINVAL \<and>
      bus_log (snd (da7280_set_user_data ideal_i2c (user_data_shipped\<lparr>USER_IMPD_mOhm := 3000\<rparr>) ?z)) =
        ?per @ ?cfg @ [Rd DA7280_ACTUATOR3, Wr DA7280_ACTUATOR3 16]"
  proof -
    let ?U = "user_data_shipped\<lparr>USER_IMPD_mOhm := 3000\<rparr>"
    let ?s0 = "?z\<lparr>haptic := load_user_data ?U (haptic ?z)\<rparr>"
    let ?s1 = "?s0\<lparr>dev := ?d1, bus_log := ?per\<rparr>"
    let ?s3 = "?s1\<lparr>dev := ?d3, bus_log := ?per @ ?cfg\<rparr>"
    have dt: "set_user_data_dev_type ideal_i2c ?U ?s0 = (0, ?s1)"
      by (simp add: set_user_data_dev_type_def load_user_data_def da7280_set_resonant_freq_def
            da7280_reg_write_def Let_def ideal_i2c_def ideal_sys_def user_data_shipped_def
            hal_consts reg_consts word_less_nat_alt)
    have s2: "?s1 = (if DA7280_RTWM_MODE \<le> op_mode (haptic ?s1)
                     then ?s1\<lparr>haptic := (haptic ?s1)\<lparr>bemf_sense_en := 0\<rparr>\<rparr> else ?s1)"
      by (simp add: load_user_data_def user_data_shipped_def hal_consts word_le_nat_alt)
    have cfg: "da7280_update_bits ideal_i2c DA7280_TOP_CFG1 top_cfg1_mask
                 (top_cfg1_val (haptic ?s1)) ?s1 = (0, ?s3)"
      by (simp add: da7280_update_bits_def da7280_reg_read_def da7280_reg_write_def Let_def
            ideal_i2c_def ideal_sys_def top_cfg1_mask_def top_cfg1_val_def load_user_data_def
            haptic_init_def user_data_shipped_def hal_consts reg_consts)
    have rd: "i2c_register_read ideal_i2c DA7280_ACTUATOR3 (dev ?s3) = (0, 0, ?d3)"
      by (simp add: ideal_i2c_def ideal_sys_def reg_consts)
    have x: "(16 :: u8) = ((if (0 :: int) < 0 then 0xFE else 0) AND NOT 0x1F) OR
               word_of_int
                 (min (c_int (c_int (c_int (sint (USER_IMAX_mA ?U) * 1000) - 28600) sdiv 7200 + 1))
                    31 mod 32)"
      by (simp add: user_data_shipped_def c_arith)
    have wr: "i2c_register_write ideal_i2c DA7280_ACTUATOR3 16 ?d3 =
        (0, ?d3(DA7280_ACTUATOR3 := 16))"
      by (simp add: ideal_i2c_def)
    from set_user_data_validation_order [OF dt s2 cfg rd x wr, of 300 ?z]
    show ?thesis
      by (simp add: user_data_shipped_def hal_consts)
  qed
  from freq imax impd show ?thesis by simp
qed

text \<open>
  The claim as stated fails for the current ceiling and for the impedance range: with
  the shipped platform data and \<open>USER_IMAX_mA = 300\<close> the frequency registers and
  \<open>DA7280_TOP_CFG1\<close> have been written when \<open>-EINVAL\<close> is returned, and with
  \<open>USER_IMPD_mOhm = 3000\<close> the \<open>IMAX\<close> field of \<open>DA7280_ACTUATOR3\<close> as well.
\<close>

theorem set_user_data_validation_counterexample:
  "fst (da7280_set_user_data sim_i2c (user_data_shipped\<lparr>USER_IMAX_mA := 300\<rparr>)
          (sim_sys [] [])) = - EINVAL \<and>
   bus_log (snd (da7280_set_user_data sim_i2c (user_data_shipped\<lparr>USER_IMAX_mA := 300\<rparr>)
          (sim_sys [] []))) =
     [Wr DA7280_FRQ_LRA_PER_H 0x20, Wr DA7280_FRQ_LRA_PER_L 0x47,
      Rd DA7280_TOP_CFG1, Wr DA7280_TOP_CFG1 0x1E] \<and>
   fst (da7280_set_user_data sim_i2c (user_data_shipped\<lparr>USER_IMPD_mOhm := 3000\<rparr>)
          (sim_sys [] [])) = - EINVAL \<and>
   bus_log (snd (da7280_set_user_data sim_i2c (user_data_shipped\<lparr>USER_IMPD_mOhm := 3000\<rparr>)
          (sim_sys [] []))) =
     [Wr DA7280_FRQ_LRA_PER_H 0x20, Wr DA7280_FRQ_LRA_PER_L 0x47,
      Rd DA7280_TOP_CFG1, Wr DA7280_TOP_CFG1 0x1E,
      Rd DA7280_ACTUATOR3, Wr DA7280_ACTUATOR3 16]"
  by (simp add: da7280_set_user_data_def set_user_data_dev_type_def load_user_data_def
        da7280_set_resonant_freq_def da7280_set_imax_def da7280_impd_check_def
        da7280_set_volt_rating_def da7280_pdata_setup_def top_cfg1_mask_def top_cfg1_val_def
        da7280_update_bits_def da7280_reg_read_def da7280_reg_write_def Let_def
        sim_i2c_def sim_sys_def haptic_init_def user_data_shipped_def hal_consts reg_consts
        c_arith word_le_nat_alt)

end
